theory Spec2Isabelle
  imports Main "HOL-Library.Word"
begin

unbundle bit_operations_syntax

section \<open>Common types\<close>

text \<open>
  A Go \<^verbatim>\<open>byte\<close> / \<^verbatim>\<open>uint8\<close> is an 8-bit word, so that \<open>+\<close> wraps modulo 256 exactly as
  the Go arithmetic on \<^verbatim>\<open>uint8\<close> operands does. A \<^verbatim>\<open>[]byte\<close> is a list of such words; the
  capacity of a slice is taken to be its length. Go's \<^verbatim>\<open>int\<close> only holds lengths and
  offsets here, which never go negative, and is a \<open>nat\<close>.
\<close>

type_synonym u8 = "8 word"

text \<open>
  The errors the code returns: \<^verbatim>\<open>io.ErrUnexpectedEOF\<close>, the package's own
  \<^verbatim>\<open>UnsupportedTypeError\<close> (which carries the offending type byte), and the two errors
  of \<^verbatim>\<open>encoding/hex\<close>.
\<close>

datatype error =
    ErrUnexpectedEOF
  | UnsupportedTypeError u8
  | InvalidByteError char
  | ErrLength

text \<open>
  A call either returns a value, returns an error, or panics at run time (an index or a
  slice bound out of range, a nil pointer dereferenced). The three are kept apart.
\<close>

datatype 'a result = Ok 'a | Err error | Panic

fun and_then :: "'a result \<Rightarrow> ('a \<Rightarrow> 'b result) \<Rightarrow> 'b result" where
  "and_then (Ok x) f = f x"
| "and_then (Err e) f = Err e"
| "and_then Panic f = Panic"

text \<open>\<^verbatim>\<open>b[i]\<close>: panics when \<open>i\<close> is out of range.\<close>

definition index :: "'a list \<Rightarrow> nat \<Rightarrow> 'a result" where
  "index b i = (if i < length b then Ok (b ! i) else Panic)"

text \<open>\<^verbatim>\<open>b[lo:hi]\<close>: panics unless \<open>lo \<le> hi \<le> len(b)\<close>.\<close>

definition slice :: "'a list \<Rightarrow> nat \<Rightarrow> nat \<Rightarrow> 'a list result" where
  "slice b lo hi = (if lo \<le> hi \<and> hi \<le> length b then Ok (take (hi - lo) (drop lo b)) else Panic)"

text \<open>\<^verbatim>\<open>b[i] = v\<close>: panics when \<open>i\<close> is out of range.\<close>

definition store :: "'a list \<Rightarrow> nat \<Rightarrow> 'a \<Rightarrow> 'a list result" where
  "store b i v = (if i < length b then Ok (b[i := v]) else Panic)"

text \<open>
  Writing through a sub-slice \<^verbatim>\<open>b[lo:hi]\<close> changes the buffer it was cut from:
  \<open>splice_at b lo s\<close> is the buffer after the sub-slice starting at \<open>lo\<close> has become \<open>s\<close>.
\<close>

definition splice_at :: "'a list \<Rightarrow> nat \<Rightarrow> 'a list \<Rightarrow> 'a list" where
  "splice_at b lo s = take lo b @ s @ drop (lo + length s) b"

text \<open>\<^verbatim>\<open>copy(b[offset:], src)\<close>: copies as many elements as fit.\<close>

definition copy_at :: "'a list \<Rightarrow> nat \<Rightarrow> 'a list \<Rightarrow> 'a list" where
  "copy_at b offset src = splice_at b offset (take (length b - offset) src)"


section \<open>Package utils: the digit-swap codec\<close>

subsection \<open>\<^verbatim>\<open>encoding/hex\<close>\<close>

text \<open>
  The Go standard library's hexadecimal codec, as far as the package uses it. Decoding
  accepts the digits, \<^verbatim>\<open>a\<close> to \<^verbatim>\<open>f\<close> and \<^verbatim>\<open>A\<close> to \<^verbatim>\<open>F\<close>; encoding writes lower case.
\<close>

definition fromHexChar :: "char \<Rightarrow> u8 option" where
  "fromHexChar c =
     (let n = (of_char c :: nat) in
      if 48 \<le> n \<and> n \<le> 57 then Some (of_nat (n - 48))
      else if 97 \<le> n \<and> n \<le> 102 then Some (of_nat (n - 97 + 10))
      else if 65 \<le> n \<and> n \<le> 70 then Some (of_nat (n - 65 + 10))
      else None)"

text \<open>
  \<^verbatim>\<open>hex.DecodeString\<close>: pairs of characters from the left, the first bad character is
  reported; a string of odd length is \<^verbatim>\<open>ErrLength\<close> unless its last character is bad.
  The bytes decoded before an error are dropped, as the only caller drops them.
\<close>

fun DecodeString :: "string \<Rightarrow> u8 list result" where
  "DecodeString [] = Ok []"
| "DecodeString [p] =
     (case fromHexChar p of None \<Rightarrow> Err (InvalidByteError p) | Some a \<Rightarrow> Err ErrLength)"
| "DecodeString (p # q # rest) =
     (case fromHexChar p of
        None \<Rightarrow> Err (InvalidByteError p)
      | Some a \<Rightarrow>
          (case fromHexChar q of
             None \<Rightarrow> Err (InvalidByteError q)
           | Some b \<Rightarrow> and_then (DecodeString rest) (\<lambda>bs. Ok ((push_bit 4 a OR b) # bs))))"

definition hextable :: string where
  "hextable = ''0123456789abcdef''"

fun EncodeToString :: "u8 list \<Rightarrow> string" where
  "EncodeToString [] = []"
| "EncodeToString (v # vs) =
     hextable ! unat (drop_bit 4 v) # hextable ! unat (v AND 0x0f) # EncodeToString vs"

subsection \<open>utils.go\<close>

text \<open>The body of the loop in \<^verbatim>\<open>swap\<close>, and the loop over the slice.\<close>

definition swap_byte :: "u8 \<Rightarrow> u8" where
  "swap_byte x = ((drop_bit 4 x) AND 0xf) + ((push_bit 4 x) AND 0xf0)"

definition swap :: "u8 list \<Rightarrow> u8 list" where
  "swap raw = map swap_byte raw"

definition StrToSwappedBytes :: "string \<Rightarrow> string \<Rightarrow> u8 list result" where
  "StrToSwappedBytes s filler =
     and_then (if length s mod 2 = 0 then DecodeString s else DecodeString (s @ filler))
       (\<lambda>raw. Ok (swap raw))"

text \<open>
  \<^verbatim>\<open>s[:len(s)-1]\<close> panics when \<open>s\<close> is empty: the upper bound is then \<open>-1\<close>.
\<close>

definition SwappedBytesToStr :: "u8 list \<Rightarrow> bool \<Rightarrow> string result" where
  "SwappedBytesToStr raw cutLastDigit =
     (let s = EncodeToString (swap raw) in
      if cutLastDigit then
        (if length s = 0 then Panic else slice s 0 (length s - 1))
      else Ok s)"

definition BCDEncode :: "string \<Rightarrow> u8 list result" where
  "BCDEncode s = StrToSwappedBytes s ''f''"

definition BCDDecode :: "bool \<Rightarrow> u8 list \<Rightarrow> string result" where
  "BCDDecode isOdd b = SwappedBytesToStr b isOdd"

definition is_lower_hex :: "char \<Rightarrow> bool" where
  "is_lower_hex c \<longleftrightarrow> c \<in> set hextable"

definition is_hex :: "char \<Rightarrow> bool" where
  "is_hex c \<longleftrightarrow> fromHexChar c \<noteq> None"



section \<open>Package params: the collaborators of the framing engine\<close>

text \<open>
  Modelled from the spec: the protocol-class codec \<^verbatim>\<open>params.ProtocolClass\<close>, whose source
  file is missing. The spec: "given a numeric class (0--3) and a boolean return-on-error
  flag, produces/consumes exactly 1 byte". The flag is the top bit of that byte, the
  class its low bits; reading takes the byte as it is.
\<close>

record ProtocolClass =
  pc_value :: u8

definition NewProtocolClass :: "int \<Rightarrow> bool \<Rightarrow> ProtocolClass" where
  "NewProtocolClass cls opts =
     (if opts then \<lparr>pc_value = word_of_int cls OR 0x80\<rparr> else \<lparr>pc_value = word_of_int cls\<rparr>)"

text \<open>
  Modelled from the spec: \<^verbatim>\<open>(*ProtocolClass).Value\<close>, the one byte written to the wire.
  The receiver is a pointer; a nil receiver is dereferenced.
\<close>

definition pc_Value :: "ProtocolClass option \<Rightarrow> u8 result" where
  "pc_Value p = (case p of None \<Rightarrow> Panic | Some c \<Rightarrow> Ok (pc_value c))"

text \<open>
  Modelled from the spec: \<^verbatim>\<open>(*ProtocolClass).Read\<close>, which consumes exactly one byte and
  returns the number of bytes read.
\<close>

definition pc_Read :: "u8 list \<Rightarrow> (nat \<times> ProtocolClass) result" where
  "pc_Read b = (if length b < 1 then Err ErrUnexpectedEOF else Ok (1, \<lparr>pc_value = b ! 0\<rparr>))"

text \<open>
  Modelled from the spec: the party-address substructure \<^verbatim>\<open>params.PartyAddress\<close>, whose
  source file is missing. The spec: "a self-length-prefixed
  variable-length block whose first byte is its own remaining length; exposes a
  \<^verbatim>\<open>length()\<close> accessor (used by the Framing Engine to derive pointers)". The bytes after
  the length byte (addressing indicator, point code, subsystem number, global title) are
  not interpreted by the framing engine and are kept as they are.
\<close>

record PartyAddress =
  pa_length :: u8
  pa_body :: "u8 list"

text \<open>Modelled from the spec: \<^verbatim>\<open>(*PartyAddress).Length\<close>, the value of the length byte.\<close>

definition pa_Length :: "PartyAddress \<Rightarrow> nat" where
  "pa_Length p = unat (pa_length p)"

text \<open>
  Modelled from the spec: \<^verbatim>\<open>(*PartyAddress).MarshalLen\<close>, the size of the block: the
  length byte and what follows it.
\<close>

definition pa_MarshalLen :: "PartyAddress \<Rightarrow> nat" where
  "pa_MarshalLen p = 1 + length (pa_body p)"

text \<open>
  Modelled from the spec: \<^verbatim>\<open>(*PartyAddress).MarshalTo\<close>, which writes the block to the
  front of the slice it is given and fails on a slice that is too short. The result is
  the slice after the write. A nil receiver is dereferenced.
\<close>

definition pa_MarshalTo :: "PartyAddress option \<Rightarrow> u8 list \<Rightarrow> u8 list result" where
  "pa_MarshalTo p b =
     (case p of
        None \<Rightarrow> Panic
      | Some a \<Rightarrow>
          if length b < pa_MarshalLen a then Err ErrUnexpectedEOF
          else Ok (pa_length a # pa_body a @ drop (pa_MarshalLen a) b))"

text \<open>
  Modelled from the spec: \<^verbatim>\<open>params.ParseCalledPartyAddress\<close> and
  \<^verbatim>\<open>params.ParseCallingPartyAddress\<close>, which read one block from the front of the slice:
  the length byte, then as many bytes as it announces; a slice that holds fewer is
  truncated.
\<close>

definition ParsePartyAddress :: "u8 list \<Rightarrow> PartyAddress result" where
  "ParsePartyAddress b =
     (case b of
        [] \<Rightarrow> Err ErrUnexpectedEOF
      | n # rest \<Rightarrow>
          if length rest < unat n then Err ErrUnexpectedEOF
          else Ok \<lparr>pa_length = n, pa_body = take (unat n) rest\<rparr>)"

definition ParseCalledPartyAddress :: "u8 list \<Rightarrow> PartyAddress result" where
  "ParseCalledPartyAddress b = ParsePartyAddress b"

definition ParseCallingPartyAddress :: "u8 list \<Rightarrow> PartyAddress result" where
  "ParseCallingPartyAddress b = ParsePartyAddress b"

text \<open>
  An address is well formed when its length byte counts the bytes that follow it, which
  is what the spec's "first byte is its own remaining length" says of every block.
\<close>

definition pa_wf :: "PartyAddress \<Rightarrow> bool" where
  "pa_wf p \<longleftrightarrow> unat (pa_length p) = length (pa_body p)"


section \<open>Package sccp\<close>

subsection \<open>Message types\<close>

text \<open>\<^verbatim>\<open>MsgType\<close> is a \<^verbatim>\<open>uint8\<close>; the constants count up from 1.\<close>

definition MsgTypeCR :: u8 where "MsgTypeCR = 1"
definition MsgTypeCC :: u8 where "MsgTypeCC = 2"
definition MsgTypeCREF :: u8 where "MsgTypeCREF = 3"
definition MsgTypeRLSD :: u8 where "MsgTypeRLSD = 4"
definition MsgTypeRLC :: u8 where "MsgTypeRLC = 5"
definition MsgTypeDT1 :: u8 where "MsgTypeDT1 = 6"
definition MsgTypeDT2 :: u8 where "MsgTypeDT2 = 7"
definition MsgTypeAK :: u8 where "MsgTypeAK = 8"
definition MsgTypeUDT :: u8 where "MsgTypeUDT = 9"
definition MsgTypeUDTS :: u8 where "MsgTypeUDTS = 10"
definition MsgTypeED :: u8 where "MsgTypeED = 11"
definition MsgTypeEA :: u8 where "MsgTypeEA = 12"
definition MsgTypeRSR :: u8 where "MsgTypeRSR = 13"
definition MsgTypeRSC :: u8 where "MsgTypeRSC = 14"
definition MsgTypeERR :: u8 where "MsgTypeERR = 15"
definition MsgTypeIT :: u8 where "MsgTypeIT = 16"
definition MsgTypeXUDT :: u8 where "MsgTypeXUDT = 17"
definition MsgTypeXUDTS :: u8 where "MsgTypeXUDTS = 18"
definition MsgTypeLUDT :: u8 where "MsgTypeLUDT = 19"
definition MsgTypeLUDTS :: u8 where "MsgTypeLUDTS = 20"

subsection \<open>UDT\<close>

text \<open>
  The struct. The three pointer-typed fields may be nil, which is \<open>None\<close>.
\<close>

record UDT =
  Type :: u8
  ProtocolClass :: "ProtocolClass option"
  Ptr1 :: u8
  Ptr2 :: u8
  Ptr3 :: u8
  CalledPartyAddress :: "PartyAddress option"
  CallingPartyAddress :: "PartyAddress option"
  DataLength :: u8
  Data :: "u8 list"

definition SetLength :: "UDT \<Rightarrow> UDT" where
  "SetLength u = u\<lparr>DataLength := of_nat (length (Data u))\<rparr>"

text \<open>
  \<^verbatim>\<open>NewUDT\<close>, for two addresses that are not nil (\<^verbatim>\<open>cdpa.Length()\<close> is called on the
  argument as it comes). The additions are on \<^verbatim>\<open>uint8\<close>.
\<close>

definition NewUDT :: "int \<Rightarrow> bool \<Rightarrow> PartyAddress \<Rightarrow> PartyAddress \<Rightarrow> u8 list \<Rightarrow> UDT" where
  "NewUDT pcls retOnErr cdpa cgpa data =
     (let u = \<lparr>Type = MsgTypeUDT,
               ProtocolClass = Some (NewProtocolClass pcls retOnErr),
               Ptr1 = 3, Ptr2 = 0, Ptr3 = 0,
               CalledPartyAddress = Some cdpa,
               CallingPartyAddress = Some cgpa,
               DataLength = 0,
               Data = data\<rparr>;
          u = u\<lparr>Ptr2 := Ptr1 u + of_nat (pa_Length cdpa)\<rparr>;
          u = u\<lparr>Ptr3 := Ptr2 u + of_nat (pa_Length cgpa)\<rparr>
      in SetLength u)"

definition MarshalLen :: "UDT \<Rightarrow> nat" where
  "MarshalLen u =
     (let l = 6;
          l = (case CalledPartyAddress u of None \<Rightarrow> l | Some param \<Rightarrow> l + pa_MarshalLen param);
          l = (case CallingPartyAddress u of None \<Rightarrow> l | Some param \<Rightarrow> l + pa_MarshalLen param)
      in l + length (Data u))"

text \<open>
  \<^verbatim>\<open>MarshalTo\<close> takes the buffer and returns it as written. \<^verbatim>\<open>u.Ptr2+3\<close>, \<^verbatim>\<open>u.Ptr3+4\<close> and
  \<^verbatim>\<open>u.Ptr3+5\<close> are sums of \<^verbatim>\<open>uint8\<close> operands, converted to \<^verbatim>\<open>int\<close> afterwards.
\<close>

definition MarshalTo :: "UDT \<Rightarrow> u8 list \<Rightarrow> u8 list result" where
  "MarshalTo u b =
     (let l = length b in
      if l < 5 then Err ErrUnexpectedEOF
      else
        let b = b[0 := Type u] in
        and_then (pc_Value (ProtocolClass u)) (\<lambda>v.
        let b = b[1 := v];
            b = b[2 := Ptr1 u] in
        if l < unat (Ptr1 u) then Err ErrUnexpectedEOF
        else
          let b = b[3 := Ptr2 u] in
          if l < unat (Ptr2 u + 3) then Err ErrUnexpectedEOF
          else
            let b = b[4 := Ptr3 u] in
            if l < unat (Ptr3 u + 5) then Err ErrUnexpectedEOF
            else
              and_then (slice b 5 (unat (Ptr2 u + 3))) (\<lambda>s1.
              and_then (pa_MarshalTo (CalledPartyAddress u) s1) (\<lambda>s1.
              let b = splice_at b 5 s1 in
              and_then (slice b (unat (Ptr2 u + 3)) (unat (Ptr3 u + 4))) (\<lambda>s2.
              and_then (pa_MarshalTo (CallingPartyAddress u) s2) (\<lambda>s2.
              let b = splice_at b (unat (Ptr2 u + 3)) s2 in
              and_then (store b (unat (Ptr3 u + 4)) (DataLength u)) (\<lambda>b.
              let offset = unat (Ptr3 u + 5) in
              and_then (slice b offset (length b)) (\<lambda>rest.
              if length rest \<ge> unat (DataLength u)
              then Ok (copy_at b offset (Data u))
              else Err ErrUnexpectedEOF))))))))"

definition MarshalBinary :: "UDT \<Rightarrow> u8 list result" where
  "MarshalBinary u = MarshalTo u (replicate (MarshalLen u) 0)"

text \<open>
  \<^verbatim>\<open>UnmarshalBinary\<close> fills the receiver; the model returns the message it has filled in
  when the call returns nil, and the error otherwise.
\<close>

definition UnmarshalBinary :: "u8 list \<Rightarrow> UDT result" where
  "UnmarshalBinary b =
     (let l = length b in
      if l \<le> 5 then Err ErrUnexpectedEOF
      else
        and_then (index b 0) (\<lambda>ty.
        let offset = 1 in
        and_then (slice b offset l) (\<lambda>rest.
        and_then (pc_Read rest) (\<lambda>(n, pc).
        let offset = offset + n in
        and_then (index b offset) (\<lambda>p1.
        if l < unat p1 then Err ErrUnexpectedEOF
        else
          and_then (index b (offset + 1)) (\<lambda>p2.
          if l < unat (p2 + 3) then Err ErrUnexpectedEOF
          else
            and_then (index b (offset + 2)) (\<lambda>p3.
            if l < unat (p3 + 5) then Err ErrUnexpectedEOF
            else
              let offset = offset + 3 in
              and_then (slice b offset (unat (p2 + 3))) (\<lambda>s1.
              and_then (ParseCalledPartyAddress s1) (\<lambda>cdpa.
              and_then (slice b (unat (p2 + 3)) (unat (p3 + 4))) (\<lambda>s2.
              and_then (ParseCallingPartyAddress s2) (\<lambda>cgpa.
              and_then (index b (unat (p3 + 4))) (\<lambda>dl.
              let offset = unat (p3 + 5);
                  dataLen = unat dl in
              if l \<ge> offset + dataLen
              then
                and_then (slice b offset (offset + dataLen)) (\<lambda>d.
                Ok \<lparr>Type = ty, ProtocolClass = Some pc,
                    Ptr1 = p1, Ptr2 = p2, Ptr3 = p3,
                    CalledPartyAddress = Some cdpa,
                    CallingPartyAddress = Some cgpa,
                    DataLength = dl, Data = d\<rparr>)
              else Err ErrUnexpectedEOF))))))))))))"

definition ParseUDT :: "u8 list \<Rightarrow> UDT result" where
  "ParseUDT b = UnmarshalBinary b"

subsection \<open>The dispatcher\<close>

text \<open>
  \<^verbatim>\<open>Message\<close> is an interface; \<^verbatim>\<open>*UDT\<close> is the only type \<^verbatim>\<open>ParseMessage\<close> ever puts
  behind it.
\<close>

datatype Message = Message_UDT UDT

definition ParseMessage :: "u8 list \<Rightarrow> Message result" where
  "ParseMessage b =
     and_then (index b 0) (\<lambda>ty.
     if ty = MsgTypeUDT
     then and_then (UnmarshalBinary b) (\<lambda>u. Ok (Message_UDT u))
     else Err (UnsupportedTypeError ty))"

text \<open>
  The address of length 0 of the spec's concrete scenario: a length byte of 0 and nothing
  after it.
\<close>

definition empty_address :: PartyAddress where
  "empty_address = \<lparr>pa_length = 0, pa_body = []\<rparr>"


section \<open>The digit-swap codec: proofs\<close>

lemma bit_15_int: "bit (15 :: int) n \<longleftrightarrow> n < 4"
proof -
  have h: "(15 :: int) = mask 4" by (simp add: mask_eq_exp_minus_1)
  show ?thesis unfolding h by (auto simp add: bit_simps)
qed

lemma bit_240_int: "bit (240 :: int) n \<longleftrightarrow> 4 \<le> n \<and> n < 8"
proof -
  have h: "(240 :: int) = push_bit 4 (mask 4)"
    by (simp add: mask_eq_exp_minus_1 push_bit_eq_mult)
  show ?thesis unfolding h by (auto simp add: bit_simps)
qed

text \<open>The two halves of the sum in \<^verbatim>\<open>swap\<close> have no bit in common, so the sum is an OR.\<close>

lemma swap_byte_or: "swap_byte x = ((drop_bit 4 x) AND 0xf) OR ((push_bit 4 x) AND 0xf0)"
  unfolding swap_byte_def
  apply (rule disjunctive_add_eq_or)
  apply (rule bit_eqI)
  apply (auto simp: bit_simps bit_15_int bit_240_int)
  done

lemma swap_byte_invol: "swap_byte (swap_byte x) = x"
proof (rule bit_eqI)
  fix n
  show "bit (swap_byte (swap_byte x)) n \<longleftrightarrow> bit x n"
    by (cases "n < 4")
       (auto simp: swap_byte_or bit_simps bit_15_int bit_240_int dest: bit_imp_le_length)
qed

lemma swap_swap: "swap (swap raw) = raw"
  by (induction raw) (simp_all add: swap_def swap_byte_invol)

lemma nibble_bits:
  fixes a :: u8
  assumes "a < 16"
  shows "bit a n \<Longrightarrow> n < 4"
proof -
  have h: "a AND mask 4 = a" using assms by (intro less_mask_eq) simp
  assume "bit a n"
  then have "bit (a AND mask 4) n" by (simp only: h)
  then show "n < 4" by (simp add: bit_simps)
qed

lemma byte_high:
  fixes a b :: u8
  assumes "a < 16" "b < 16"
  shows "drop_bit 4 (push_bit 4 a OR b) = a"
proof (rule bit_eqI)
  fix n
  show "bit (drop_bit 4 (push_bit 4 a OR b)) n \<longleftrightarrow> bit a n"
    using nibble_bits[OF assms(1), of n] nibble_bits[OF assms(2), of "4 + n"]
    by (auto simp: bit_simps)
qed

lemma byte_low:
  fixes a b :: u8
  assumes "a < 16" "b < 16"
  shows "(push_bit 4 a OR b) AND 0x0f = b"
proof (rule bit_eqI)
  fix n
  show "bit ((push_bit 4 a OR b) AND 0x0f) n \<longleftrightarrow> bit b n"
    using nibble_bits[OF assms(2), of n]
    by (auto simp: bit_simps bit_15_int)
qed

lemma lower_hex_char:
  assumes "is_lower_hex c"
  shows "\<exists>d. fromHexChar c = Some d \<and> d < 16 \<and> hextable ! unat d = c"
  using assms unfolding is_lower_hex_def hextable_def
  by (auto simp: fromHexChar_def)

text \<open>On lower-case digits, encoding undoes decoding, two characters at a time.\<close>

lemma DecodeString_lower_hex:
  "even (length s) \<Longrightarrow> \<forall>c\<in>set s. is_lower_hex c \<Longrightarrow>
     \<exists>bs. DecodeString s = Ok bs \<and> EncodeToString bs = s"
proof (induction s rule: DecodeString.induct)
  case 1
  then show ?case by simp
next
  case (2 p)
  then show ?case by simp
next
  case (3 p q rest)
  from "3.prems" obtain a where a: "fromHexChar p = Some a" "a < 16" "hextable ! unat a = p"
    using lower_hex_char[of p] by auto
  from "3.prems" obtain b where b: "fromHexChar q = Some b" "b < 16" "hextable ! unat b = q"
    using lower_hex_char[of q] by auto
  from "3.prems" have "even (length rest)" "\<forall>c\<in>set rest. is_lower_hex c" by simp_all
  with "3.IH"[OF a(1) b(1)] obtain bs
    where bs: "DecodeString rest = Ok bs" "EncodeToString bs = rest"
    by blast
  have dec: "DecodeString (p # q # rest) = Ok ((push_bit 4 a OR b) # bs)"
    using a(1) b(1) bs(1) by simp
  have enc: "EncodeToString ((push_bit 4 a OR b) # bs) = p # q # rest"
    by (simp only: EncodeToString.simps byte_high[OF a(2) b(2)] byte_low[OF a(2) b(2)]
        a(3) b(3) bs(2))
  from dec enc show ?case by blast
qed

text \<open>
  C7, as the code has it. For every string \<open>s\<close> of even length made of the digits and the
  lower-case letters \<^verbatim>\<open>a\<close> to \<^verbatim>\<open>f\<close>, \<^verbatim>\<open>StrToSwappedBytes(s, "f")\<close> succeeds and
  \<^verbatim>\<open>SwappedBytesToStr\<close> of its result, with nothing cut, is \<open>s\<close> again.
\<close>

theorem digit_swap_inverse_lower:
  assumes "even (length s)" and "\<forall>c\<in>set s. is_lower_hex c"
  shows "and_then (StrToSwappedBytes s ''f'') (\<lambda>bs. SwappedBytesToStr bs False) = Ok s"
proof -
  from DecodeString_lower_hex[OF assms] obtain bs
    where bs: "DecodeString s = Ok bs" "EncodeToString bs = s" by blast
  show ?thesis
    using assms(1) bs by (simp add: StrToSwappedBytes_def SwappedBytesToStr_def swap_swap)
qed

theorem digit_swap_inverse_lower_witness:
  "even (length ''1a2b'') \<and>
   and_then (StrToSwappedBytes ''1a2b'' ''f'') (\<lambda>bs. SwappedBytesToStr bs False) = Ok ''1a2b''"
  using digit_swap_inverse_lower[of "''1a2b''"]
  by (simp add: is_lower_hex_def hextable_def)

text \<open>
  C7 as stated fails on upper-case hex digits: the decoder accepts them, the encoder
  writes lower case. \<^verbatim>\<open>"AB"\<close> has even length, both characters are hex digits, and the
  round trip returns \<^verbatim>\<open>"ab"\<close>.
\<close>

theorem digit_swap_inverse_upper_counterexample:
  "even (length ''AB'') \<and> is_hex (CHR ''A'') \<and> is_hex (CHR ''B'') \<and>
   StrToSwappedBytes ''AB'' ''f'' = Ok [0xBA] \<and>
   SwappedBytesToStr [0xBA] False = Ok ''ab'' \<and>
   ''ab'' \<noteq> ''AB''"
  by (simp add: is_hex_def fromHexChar_def StrToSwappedBytes_def SwappedBytesToStr_def
      swap_def swap_byte_def hextable_def)

text \<open>
  C8. Decoding is meant to have no failure path, but with the cut flag set the empty byte
  sequence is hex-encoded to the empty string and \<^verbatim>\<open>s[:len(s)-1]\<close> then slices with an upper
  bound of \<open>-1\<close>: the call panics.
\<close>

theorem SwappedBytesToStr_empty_cut_panics:
  "SwappedBytesToStr [] True = Panic \<and> BCDDecode True [] = Panic"
  by (simp add: SwappedBytesToStr_def BCDDecode_def swap_def)

lemma length_EncodeToString: "length (EncodeToString vs) = 2 * length vs"
  by (induction vs) simp_all

text \<open>Everywhere else the decoder does return a string.\<close>

lemma SwappedBytesToStr_total_otherwise:
  "raw \<noteq> [] \<or> \<not> cutLastDigit \<Longrightarrow> \<exists>s. SwappedBytesToStr raw cutLastDigit = Ok s"
  by (auto simp: SwappedBytesToStr_def Let_def slice_def length_EncodeToString swap_def)


section \<open>The dispatcher: proofs\<close>

lemma and_then_Err:
  "and_then r f = Err e \<Longrightarrow> r = Err e \<or> (\<exists>x. r = Ok x \<and> f x = Err e)"
  by (cases r) simp_all

lemma index_not_Err: "index b i \<noteq> Err e"
  by (simp add: index_def)

lemma slice_not_Err: "slice b lo hi \<noteq> Err e"
  by (simp add: slice_def)

lemma pc_Read_Err: "pc_Read b = Err e \<Longrightarrow> e = ErrUnexpectedEOF"
  by (simp add: pc_Read_def split: if_splits)

lemma ParsePartyAddress_Err: "ParsePartyAddress b = Err e \<Longrightarrow> e = ErrUnexpectedEOF"
  by (simp add: ParsePartyAddress_def split: list.splits if_splits)

text \<open>The only error the UDT decoder returns is \<^verbatim>\<open>io.ErrUnexpectedEOF\<close>.\<close>

lemma UnmarshalBinary_Err:
  "UnmarshalBinary b = Err e \<Longrightarrow> e = ErrUnexpectedEOF"
  unfolding UnmarshalBinary_def Let_def
  by (auto dest!: and_then_Err pc_Read_Err ParsePartyAddress_Err
      simp: index_not_Err slice_not_Err ParseCalledPartyAddress_def ParseCallingPartyAddress_def
      split: if_splits prod.splits)

lemma unimplemented_type_values:
  "unat ` {MsgTypeCR, MsgTypeCC, MsgTypeCREF, MsgTypeRLSD, MsgTypeRLC, MsgTypeDT1, MsgTypeDT2,
           MsgTypeAK, MsgTypeUDTS, MsgTypeED, MsgTypeEA, MsgTypeRSR, MsgTypeRSC, MsgTypeERR,
           MsgTypeIT, MsgTypeXUDT, MsgTypeXUDTS, MsgTypeLUDT, MsgTypeLUDTS}
     \<subseteq> {1..8} \<union> {10..20}"
  by (simp add: MsgTypeCR_def MsgTypeCC_def MsgTypeCREF_def MsgTypeRLSD_def MsgTypeRLC_def
      MsgTypeDT1_def MsgTypeDT2_def MsgTypeAK_def MsgTypeUDTS_def MsgTypeED_def MsgTypeEA_def
      MsgTypeRSR_def MsgTypeRSC_def MsgTypeERR_def MsgTypeIT_def MsgTypeXUDT_def
      MsgTypeXUDTS_def MsgTypeLUDT_def MsgTypeLUDTS_def)

text \<open>
  C6. For every buffer whose first byte is one of the tags 1 to 8 or 10 to 20,
  \<^verbatim>\<open>ParseMessage\<close> fails with \<^verbatim>\<open>UnsupportedTypeError\<close> carrying that byte. Tag 9 is the only
  one with a parser: a buffer that starts with 9 is handed whole to the UDT decoder, whose
  result (the message, its error or its panic) is the result of \<^verbatim>\<open>ParseMessage\<close>, and that
  result is never \<^verbatim>\<open>UnsupportedTypeError\<close>; every other first byte, 0 and 21 to 255
  included, is rejected with \<^verbatim>\<open>UnsupportedTypeError\<close> carrying it.
\<close>

theorem ParseMessage_unsupported_types:
  assumes "b \<noteq> []"
  shows "(unat (hd b) \<in> {1..8} \<union> {10..20} \<longrightarrow>
            ParseMessage b = Err (UnsupportedTypeError (hd b))) \<and>
         (hd b = MsgTypeUDT \<longrightarrow>
            ParseMessage b = and_then (UnmarshalBinary b) (\<lambda>u. Ok (Message_UDT u)) \<and>
            (\<forall>t. ParseMessage b \<noteq> Err (UnsupportedTypeError t))) \<and>
         (hd b \<noteq> MsgTypeUDT \<longrightarrow>
            ParseMessage b = Err (UnsupportedTypeError (hd b))) \<and>
         (ParseMessage b = Err (UnsupportedTypeError (hd b)) \<longleftrightarrow> hd b \<noteq> MsgTypeUDT)"
proof -
  from assms obtain t rest where b: "b = t # rest" by (cases b) auto
  have other: "ParseMessage b = Err (UnsupportedTypeError (hd b))" if "hd b \<noteq> MsgTypeUDT"
    using that by (simp add: b ParseMessage_def index_def)
  have dispatch: "ParseMessage b = and_then (UnmarshalBinary b) (\<lambda>u. Ok (Message_UDT u))"
    if "hd b = MsgTypeUDT"
    using that by (simp add: b ParseMessage_def index_def)
  have udt: "ParseMessage b \<noteq> Err (UnsupportedTypeError t)" if "hd b = MsgTypeUDT" for t
  proof
    assume "ParseMessage b = Err (UnsupportedTypeError t)"
    with dispatch[OF that] have "and_then (UnmarshalBinary b) (\<lambda>u. Ok (Message_UDT u)) =
        Err (UnsupportedTypeError t)"
      by simp
    then have "UnmarshalBinary b = Err (UnsupportedTypeError t)"
      by (auto dest: and_then_Err)
    then show False by (auto dest: UnmarshalBinary_Err)
  qed
  have tags: "hd b \<noteq> MsgTypeUDT" if "unat (hd b) \<in> {1..8} \<union> {10..20}"
    using that by (auto simp: MsgTypeUDT_def)
  from other dispatch udt tags show ?thesis by blast
qed

theorem ParseMessage_unsupported_types_witness:
  "ParseMessage [0x0A, 0x00, 0x03] = Err (UnsupportedTypeError 0x0A) \<and>
   ParseMessage [0x00, 0x00, 0x03] = Err (UnsupportedTypeError 0x00) \<and>
   ParseMessage [0x09, 0x00, 0x03, 0x03, 0x03, 0x00, 0x00, 0x02, 0xDE, 0xAD] =
     Ok (Message_UDT \<lparr>Type = 0x09, ProtocolClass = Some \<lparr>pc_value = 0x00\<rparr>,
           Ptr1 = 0x03, Ptr2 = 0x03, Ptr3 = 0x03,
           CalledPartyAddress = Some \<lparr>pa_length = 0x00, pa_body = []\<rparr>,
           CallingPartyAddress = Some \<lparr>pa_length = 0x00, pa_body = []\<rparr>,
           DataLength = 0x02, Data = [0xDE, 0xAD]\<rparr>)"
  using ParseMessage_unsupported_types[of "[0x0A, 0x00, 0x03]"]
    ParseMessage_unsupported_types[of "[0x00, 0x00, 0x03]"]
    ParseMessage_unsupported_types[of "[0x09, 0x00, 0x03, 0x03, 0x03, 0x00, 0x00, 0x02, 0xDE, 0xAD]"]
  by (simp add: MsgTypeUDT_def UnmarshalBinary_def index_def slice_def pc_Read_def
      ParseCalledPartyAddress_def ParseCallingPartyAddress_def ParsePartyAddress_def)

text \<open>
  C9. \<^verbatim>\<open>ParseMessage\<close> reads \<^verbatim>\<open>b[0]\<close> without looking at the length of \<open>b\<close>: on the empty
  buffer the index is out of range and the call panics. On every other buffer it hands
  the whole buffer to the UDT decoder when the first byte is 9, and returns
  \<^verbatim>\<open>UnsupportedTypeError\<close> with that byte otherwise.
\<close>

theorem ParseMessage_empty_panics_else_dispatches:
  "ParseMessage [] = Panic \<and>
   (b \<noteq> [] \<longrightarrow>
      ParseMessage b =
        (if hd b = MsgTypeUDT then and_then (UnmarshalBinary b) (\<lambda>u. Ok (Message_UDT u))
         else Err (UnsupportedTypeError (hd b))))"
  by (auto simp: ParseMessage_def index_def hd_conv_nth)

theorem ParseMessage_empty_panics_else_dispatches_witness:
  "ParseMessage [] = Panic \<and>
   ParseMessage [0x09, 0x00, 0x03] = Err ErrUnexpectedEOF \<and>
   ParseMessage [0x03, 0x01, 0x02] = Err (UnsupportedTypeError 0x03)"
  using ParseMessage_empty_panics_else_dispatches[of "[0x09, 0x00, 0x03]"]
    ParseMessage_empty_panics_else_dispatches[of "[0x03, 0x01, 0x02]"]
  by (simp add: MsgTypeUDT_def UnmarshalBinary_def)


section \<open>The framing engine: proofs\<close>

subsection \<open>Construction\<close>

text \<open>
  C10. \<^verbatim>\<open>SetLength\<close> stores \<^verbatim>\<open>uint8(len(u.Data))\<close>: for a payload of more than 255 bytes
  the stored value is the length modulo 256, which is not the length. \<^verbatim>\<open>NewUDT\<close> keeps
  the payload as given and sets the length field this way.
\<close>

theorem SetLength_mod_256:
  assumes "length (Data u) > 255" and "length data > 255"
  shows "unat (DataLength (SetLength u)) = length (Data u) mod 256 \<and>
         unat (DataLength (SetLength u)) \<noteq> length (Data u) \<and>
         Data (NewUDT pcls retOnErr cdpa cgpa data) = data \<and>
         unat (DataLength (NewUDT pcls retOnErr cdpa cgpa data)) = length data mod 256 \<and>
         unat (DataLength (NewUDT pcls retOnErr cdpa cgpa data)) \<noteq> length data"
proof -
  have ne: "n mod 256 \<noteq> n" if "255 < n" for n :: nat
    using that mod_less_divisor[of 256 n] by linarith
  show ?thesis
    using assms by (simp add: NewUDT_def SetLength_def Let_def unat_of_nat ne)
qed

theorem SetLength_mod_256_witness:
  "unat (DataLength (SetLength (NewUDT 0 False empty_address empty_address (replicate 300 0)))) = 44 \<and>
   unat (DataLength (NewUDT 0 False empty_address empty_address (replicate 300 0))) = 44 \<and>
   length (Data (NewUDT 0 False empty_address empty_address (replicate 300 0))) = 300"
  using SetLength_mod_256[of "NewUDT 0 False empty_address empty_address (replicate 300 0)"
      "replicate 300 0" 0 False empty_address empty_address]
  by (simp add: NewUDT_def SetLength_def Let_def)

text \<open>
  C5, as the code has it. The pointers and the data length are bytes, and the sums are
  sums of bytes: \<open>Ptr1 = 3\<close>, \<open>Ptr2 = (3 + length(A)) mod 256\<close>,
  \<open>Ptr3 = (Ptr2 + length(B)) mod 256\<close> and \<open>DataLength = len(payload) mod 256\<close>. The
  equations of the claim are these whenever the right-hand sides stay below 256.
\<close>

theorem NewUDT_fields:
  "Ptr1 (NewUDT pcls retOnErr cdpa cgpa data) = 3 \<and>
   unat (Ptr2 (NewUDT pcls retOnErr cdpa cgpa data)) = (3 + pa_Length cdpa) mod 256 \<and>
   unat (Ptr3 (NewUDT pcls retOnErr cdpa cgpa data)) =
     (unat (Ptr2 (NewUDT pcls retOnErr cdpa cgpa data)) + pa_Length cgpa) mod 256 \<and>
   unat (DataLength (NewUDT pcls retOnErr cdpa cgpa data)) = length data mod 256"
  by (simp add: NewUDT_def SetLength_def Let_def unat_word_ariths unat_of_nat mod_simps)

text \<open>
  C5 as stated fails on a payload of 256 bytes, where the data length of the message built
  is 0, and on a called-party address of length 253, where \<open>Ptr2\<close> is 0 and not 256.
\<close>

theorem NewUDT_DataLength_counterexample:
  "unat (DataLength (NewUDT 0 False empty_address empty_address (replicate 256 0))) = 0 \<and>
   length (replicate 256 (0 :: u8)) = 256 \<and>
   unat (Ptr2 (NewUDT 0 False \<lparr>pa_length = 0xFD, pa_body = replicate 253 0\<rparr>
                 empty_address [])) = 0 \<and>
   3 + pa_Length \<lparr>pa_length = 0xFD, pa_body = replicate 253 0\<rparr> = 256"
  by (simp add: NewUDT_def SetLength_def Let_def pa_Length_def)

subsection \<open>Decoding\<close>

lemmas decode_defs = UnmarshalBinary_def ParseUDT_def index_def slice_def pc_Read_def
  ParseCalledPartyAddress_def ParseCallingPartyAddress_def ParsePartyAddress_def

text \<open>A buffer of fewer than 6 bytes is rejected before anything is read.\<close>

lemma UnmarshalBinary_short:
  "length b < 6 \<Longrightarrow> UnmarshalBinary b = Err ErrUnexpectedEOF"
  by (simp add: UnmarshalBinary_def)

lemma ParsePartyAddress_block:
  "pa_wf A \<Longrightarrow> ParsePartyAddress (pa_length A # pa_body A) = Ok A"
  by (simp add: ParsePartyAddress_def pa_wf_def)

text \<open>
  Decoding a frame that is laid out as its pointers say: the five header bytes, the two
  address blocks, the length byte and the bytes after it. The data is cut to the declared
  length, and a declared length that reaches beyond the end of the buffer is a truncation.
\<close>

lemma UnmarshalBinary_frame:
  assumes wA: "pa_wf A" and wB: "pa_wf B"
    and p1: "unat p1 \<le> 6 + pa_MarshalLen A + pa_MarshalLen B + length d"
    and p2: "unat (p2 + 3) = 5 + pa_MarshalLen A"
    and p3: "unat (p3 + 4) = 5 + pa_MarshalLen A + pa_MarshalLen B"
    and p3': "unat (p3 + 5) = 6 + pa_MarshalLen A + pa_MarshalLen B"
  shows "UnmarshalBinary ([ty, v, p1, p2, p3] @ (pa_length A # pa_body A) @
                          (pa_length B # pa_body B) @ dl # d) =
           (if unat dl \<le> length d
            then Ok \<lparr>Type = ty, ProtocolClass = Some \<lparr>pc_value = v\<rparr>,
                     Ptr1 = p1, Ptr2 = p2, Ptr3 = p3,
                     CalledPartyAddress = Some A, CallingPartyAddress = Some B,
                     DataLength = dl, Data = take (unat dl) d\<rparr>
            else Err ErrUnexpectedEOF)"
proof -
  have lA: "pa_MarshalLen A = Suc (length (pa_body A))"
    and lB: "pa_MarshalLen B = Suc (length (pa_body B))"
    by (simp_all add: pa_MarshalLen_def)
  have cd: "ParseCalledPartyAddress (pa_length A # pa_body A) = Ok A"
    using wA by (simp add: ParseCalledPartyAddress_def ParsePartyAddress_block)
  have cg: "ParseCallingPartyAddress (pa_length B # pa_body B) = Ok B"
    using wB by (simp add: ParseCallingPartyAddress_def ParsePartyAddress_block)
  show ?thesis
    using p1
    apply (simp add: UnmarshalBinary_def index_def slice_def pc_Read_def p2 p3 p3' Let_def)
    apply (simp add: lA lB take_Cons' drop_Cons' nth_Cons' nth_append cd cg slice_def)
    done
qed

lemma list6: "6 \<le> length b \<Longrightarrow> \<exists>b0 b1 b2 b3 b4 b5 r. b = b0 # b1 # b2 # b3 # b4 # b5 # r"
  by (auto simp: eval_nat_numeral Suc_le_length_iff)

text \<open>
  The three checks on the pointers, as the decoder makes them: each compares the length of
  the buffer with a sum of bytes.
\<close>

lemma UnmarshalBinary_pointer_checks:
  assumes "6 \<le> length b"
    and "length b < unat (b ! 2) \<or> length b < unat (b ! 3 + 3) \<or> length b < unat (b ! 4 + 5)"
  shows "UnmarshalBinary b = Err ErrUnexpectedEOF"
proof -
  from list6[OF assms(1)] obtain b0 b1 b2 b3 b4 b5 r
    where b: "b = b0 # b1 # b2 # b3 # b4 # b5 # r" by blast
  show ?thesis
    using assms(2) unfolding b
    by (auto simp: UnmarshalBinary_def Let_def index_def slice_def pc_Read_def)
qed

text \<open>
  C2. The check after \<open>pointer2\<close> is \<^verbatim>\<open>l < int(u.Ptr2+3)\<close>: the sum is taken on \<^verbatim>\<open>uint8\<close> and
  wraps before it is widened. In the six-byte buffer below \<open>pointer2\<close> is 253, so
  \<open>pointer2 + 3 = 256\<close> is far beyond the buffer, but the wrapped sum is 0, the check
  passes, and the decoder goes on to slice \<^verbatim>\<open>b[5:0]\<close>, which panics.
\<close>

theorem UnmarshalBinary_pointer_wrap_panics:
  "length [0x09, 0x00, 0x03, 0xFD, 0x00, 0x00 :: u8] < unat (0xFD :: u8) + 3 \<and>
   unat (0xFD + 3 :: u8) = 0 \<and>
   UnmarshalBinary [0x09, 0x00, 0x03, 0xFD, 0x00, 0x00] = Panic"
  by (simp add: decode_defs)

text \<open>
  C3. In the six-byte buffer below \<open>pointer3\<close> is 1, so the data-length byte is the one at
  index 5; it declares 9 bytes and none follows it. All three length checks pass, but
  \<open>pointer2\<close> is 0 and the decoder slices \<^verbatim>\<open>b[5:3]\<close> for the called-party address: it
  panics where a truncated-buffer error is due.
\<close>

theorem UnmarshalBinary_pointer_order_panics:
  "[0x09, 0x00, 0x03, 0x00, 0x01, 0x09 :: u8] ! (unat (0x01 :: u8) + 4) = 0x09 \<and>
   length [0x09, 0x00, 0x03, 0x00, 0x01, 0x09 :: u8] - (unat (0x01 :: u8) + 5) = 0 \<and>
   UnmarshalBinary [0x09, 0x00, 0x03, 0x00, 0x01, 0x09] = Panic"
  by (simp add: decode_defs)

subsection \<open>Encoding\<close>

lemma list5: "length h = 5 \<Longrightarrow> \<exists>a b c d e. h = [a, b, c, d, e]"
  by (auto simp: eval_nat_numeral length_Suc_conv)

lemma split_at: "m \<le> length xs \<Longrightarrow> \<exists>ys zs. xs = ys @ zs \<and> length ys = m"
  by (rule exI[of _ "take m xs"], rule exI[of _ "drop m xs"]) simp

text \<open>A buffer of the serial length falls into the parts the encoder writes.\<close>

lemma buffer_layout:
  assumes "length b = 6 + nA + nB + nD"
  shows "\<exists>h0 h1 h2 h3 h4 rA rB x rD. b = [h0, h1, h2, h3, h4] @ rA @ rB @ x # rD \<and>
           length rA = nA \<and> length rB = nB \<and> length rD = nD"
proof -
  from assms obtain h r1 where 1: "b = h @ r1" "length h = 5"
    using split_at[of 5 b] by auto
  with assms have "nA \<le> length r1" by simp
  then obtain rA r2 where 2: "r1 = rA @ r2" "length rA = nA"
    using split_at[of nA r1] by auto
  with 1 assms have "nB \<le> length r2" by simp
  then obtain rB r3 where 3: "r2 = rB @ r3" "length rB = nB"
    using split_at[of nB r2] by auto
  with 1 2 assms have l3: "length r3 = Suc nD" by simp
  then obtain x rD where 4: "r3 = x # rD" "length rD = nD"
    by (auto simp: length_Suc_conv)
  from list5[OF 1(2)] obtain h0 h1 h2 h3 h4 where 5: "h = [h0, h1, h2, h3, h4]" by blast
  show ?thesis using 1 2 3 4 5 by blast
qed

text \<open>
  Encoding a message whose pointers agree with the sizes of its address blocks, into a
  buffer of the serial length: every byte of the buffer is written.
\<close>

lemma MarshalTo_frame:
  assumes pc: "ProtocolClass u = Some pc"
    and A: "CalledPartyAddress u = Some A"
    and B: "CallingPartyAddress u = Some B"
    and p1: "unat (Ptr1 u) \<le> length b"
    and p2: "unat (Ptr2 u + 3) = 5 + pa_MarshalLen A"
    and p3: "unat (Ptr3 u + 4) = 5 + pa_MarshalLen A + pa_MarshalLen B"
    and p3': "unat (Ptr3 u + 5) = 6 + pa_MarshalLen A + pa_MarshalLen B"
    and len: "length b = MarshalLen u"
    and dl: "unat (DataLength u) \<le> length (Data u)"
  shows "MarshalTo u b =
           Ok ([Type u, pc_value pc, Ptr1 u, Ptr2 u, Ptr3 u] @ (pa_length A # pa_body A) @
               (pa_length B # pa_body B) @ DataLength u # Data u)"
proof -
  have "length b = 6 + pa_MarshalLen A + pa_MarshalLen B + length (Data u)"
    using len A B by (simp add: MarshalLen_def)
  from buffer_layout[OF this] obtain h0 h1 h2 h3 h4 rA rB x rD
    where b: "b = [h0, h1, h2, h3, h4] @ rA @ rB @ x # rD"
      and rA: "length rA = pa_MarshalLen A" and rB: "length rB = pa_MarshalLen B"
      and rD: "length rD = length (Data u)"
    by blast
  have lA: "pa_MarshalLen A = Suc (length (pa_body A))"
    and lB: "pa_MarshalLen B = Suc (length (pa_body B))"
    by (simp_all add: pa_MarshalLen_def)
  show ?thesis
    using p1 dl unfolding b
    apply (simp add: MarshalTo_def pc A B p2 p3 p3' rA rB rD slice_def store_def
        pa_MarshalTo_def pc_Value_def splice_at_def copy_at_def Let_def)
    apply (simp add: lA lB take_Cons' drop_Cons' rA rB rD list_update_append)
    done
qed

subsection \<open>Round trip\<close>

lemma NewUDT_pointers:
  assumes wA: "pa_wf A" and wB: "pa_wf B"
    and fit: "pa_Length A + pa_Length B \<le> 247"
  shows "unat (Ptr2 (NewUDT pcls roe A B data) + 3) = 5 + pa_MarshalLen A"
    and "unat (Ptr3 (NewUDT pcls roe A B data) + 4) = 5 + pa_MarshalLen A + pa_MarshalLen B"
    and "unat (Ptr3 (NewUDT pcls roe A B data) + 5) = 6 + pa_MarshalLen A + pa_MarshalLen B"
  using assms
  by (simp_all add: NewUDT_def SetLength_def Let_def pa_wf_def pa_Length_def pa_MarshalLen_def
      unat_word_ariths unat_of_nat mod_simps)

text \<open>
  What comes back from encoding and decoding a message built by \<^verbatim>\<open>NewUDT\<close>, for a payload
  of any size: the message, with its payload cut to the length the length byte can hold.
\<close>

lemma NewUDT_roundtrip_general:
  assumes wA: "pa_wf A" and wB: "pa_wf B"
    and fit: "pa_Length A + pa_Length B \<le> 247"
  shows "and_then (MarshalBinary (NewUDT pcls roe A B data)) ParseUDT =
           Ok ((NewUDT pcls roe A B data)\<lparr>Data := take (length data mod 256) data\<rparr>)"
proof -
  let ?u = "NewUDT pcls roe A B data"
  note ptrs = NewUDT_pointers[OF assms, of pcls roe data]
  have f: "Type ?u = MsgTypeUDT" "ProtocolClass ?u = Some (NewProtocolClass pcls roe)"
    "Ptr1 ?u = 3" "CalledPartyAddress ?u = Some A" "CallingPartyAddress ?u = Some B"
    "DataLength ?u = of_nat (length data)" "Data ?u = data"
    by (simp_all add: NewUDT_def SetLength_def Let_def)
  have dl: "unat (DataLength ?u) = length data mod 256"
    by (simp add: f unat_of_nat)
  have dl_le: "unat (DataLength ?u) \<le> length (Data ?u)"
    unfolding dl f(7) by simp
  have len: "length (replicate (MarshalLen ?u) (0::u8)) = MarshalLen ?u" by simp
  have ml: "MarshalLen ?u = 6 + pa_MarshalLen A + pa_MarshalLen B + length data"
    by (simp add: MarshalLen_def f)
  have p1: "unat (Ptr1 ?u) \<le> length (replicate (MarshalLen ?u) (0::u8))"
    by (simp add: f ml)
  have m: "MarshalBinary ?u =
      Ok ([Type ?u, pc_value (NewProtocolClass pcls roe), Ptr1 ?u, Ptr2 ?u, Ptr3 ?u] @
          (pa_length A # pa_body A) @ (pa_length B # pa_body B) @ DataLength ?u # Data ?u)"
    unfolding MarshalBinary_def
    by (rule MarshalTo_frame[OF f(2) f(4) f(5) p1 ptrs len dl_le])
  have p1': "unat (Ptr1 ?u) \<le> 6 + pa_MarshalLen A + pa_MarshalLen B + length (Data ?u)"
    by (simp add: f)
  have u: "ParseUDT ([Type ?u, pc_value (NewProtocolClass pcls roe), Ptr1 ?u, Ptr2 ?u, Ptr3 ?u] @
          (pa_length A # pa_body A) @ (pa_length B # pa_body B) @ DataLength ?u # Data ?u) =
        Ok \<lparr>Type = Type ?u,
            ProtocolClass = Some \<lparr>pc_value = pc_value (NewProtocolClass pcls roe)\<rparr>,
            Ptr1 = Ptr1 ?u, Ptr2 = Ptr2 ?u, Ptr3 = Ptr3 ?u,
            CalledPartyAddress = Some A, CallingPartyAddress = Some B,
            DataLength = DataLength ?u, Data = take (unat (DataLength ?u)) (Data ?u)\<rparr>"
    unfolding ParseUDT_def
    using UnmarshalBinary_frame[OF wA wB p1' ptrs, of "Type ?u"
        "pc_value (NewProtocolClass pcls roe)" "DataLength ?u"] dl_le
    by simp
  show ?thesis
    unfolding m and_then.simps u
    by (simp add: NewUDT_def SetLength_def Let_def unat_of_nat)
qed

text \<open>
  C1, as the code has it. For every message built by \<^verbatim>\<open>NewUDT\<close> from two well-formed party
  addresses whose lengths add up to at most 247 and from a payload of at most 255 bytes,
  \<^verbatim>\<open>MarshalBinary\<close> succeeds and \<^verbatim>\<open>ParseUDT\<close> of its result succeeds and returns the same
  message, field for field, the pointers and the data length included.
\<close>

theorem NewUDT_roundtrip:
  assumes "pa_wf cdpa" and "pa_wf cgpa"
    and "pa_Length cdpa + pa_Length cgpa \<le> 247"
    and "length data \<le> 255"
  shows "and_then (MarshalBinary (NewUDT pcls retOnErr cdpa cgpa data)) ParseUDT =
           Ok (NewUDT pcls retOnErr cdpa cgpa data)"
proof -
  have "(NewUDT pcls retOnErr cdpa cgpa data)\<lparr>Data := data\<rparr> =
        NewUDT pcls retOnErr cdpa cgpa data"
    by (simp add: NewUDT_def SetLength_def Let_def)
  with NewUDT_roundtrip_general[OF assms(1-3), of pcls retOnErr data] assms(4)
  show ?thesis by simp
qed

theorem NewUDT_roundtrip_witness:
  "and_then (MarshalBinary (NewUDT 2 True \<lparr>pa_length = 2, pa_body = [0x42, 0x08]\<rparr>
                \<lparr>pa_length = 3, pa_body = [0x43, 0x01, 0x06]\<rparr> [0x0A, 0x0B, 0x0C])) ParseUDT =
     Ok (NewUDT 2 True \<lparr>pa_length = 2, pa_body = [0x42, 0x08]\<rparr>
                \<lparr>pa_length = 3, pa_body = [0x43, 0x01, 0x06]\<rparr> [0x0A, 0x0B, 0x0C])"
  using NewUDT_roundtrip[of "\<lparr>pa_length = 2, pa_body = [0x42, 0x08]\<rparr>"
      "\<lparr>pa_length = 3, pa_body = [0x43, 0x01, 0x06]\<rparr>" "[0x0A, 0x0B, 0x0C]" 2 True]
  by (simp add: pa_wf_def pa_Length_def)

text \<open>
  C1 as stated fails on a payload of 256 bytes: the length byte of the message built is 0,
  all 256 bytes are written after it, and decoding returns a message with no payload.
\<close>

theorem NewUDT_roundtrip_counterexample:
  "and_then (MarshalBinary (NewUDT 0 False empty_address empty_address (replicate 256 0)))
      ParseUDT \<noteq>
   Ok (NewUDT 0 False empty_address empty_address (replicate 256 0))"
proof
  assume eq: "and_then (MarshalBinary (NewUDT 0 False empty_address empty_address (replicate 256 0)))
      ParseUDT = Ok (NewUDT 0 False empty_address empty_address (replicate 256 0))"
  have "and_then (MarshalBinary (NewUDT 0 False empty_address empty_address (replicate 256 0)))
      ParseUDT =
      Ok ((NewUDT 0 False empty_address empty_address (replicate 256 0))\<lparr>Data := []\<rparr>)"
    using NewUDT_roundtrip_general[of empty_address empty_address 0 False "replicate 256 0"]
    by (simp add: pa_wf_def pa_Length_def empty_address_def)
  with eq have "Data ((NewUDT 0 False empty_address empty_address (replicate 256 0))\<lparr>Data := []\<rparr>) =
      Data (NewUDT 0 False empty_address empty_address (replicate 256 0))"
    by simp
  then show False
    by (simp add: NewUDT_def SetLength_def Let_def)
qed

text \<open>
  The bound on the addresses is needed as well. With lengths of 200 and 48 the sum
  \<^verbatim>\<open>u.Ptr3+5\<close> wraps to 0 in \<^verbatim>\<open>MarshalTo\<close>, the payload is copied to the front of the buffer,
  over the header, and the message does not come back.
\<close>

lemma NewUDT_roundtrip_wrap_example:
  "and_then (MarshalBinary (NewUDT 0 False \<lparr>pa_length = 200, pa_body = replicate 200 0\<rparr>
        \<lparr>pa_length = 48, pa_body = replicate 48 0\<rparr> [0x0A])) ParseUDT \<noteq>
   Ok (NewUDT 0 False \<lparr>pa_length = 200, pa_body = replicate 200 0\<rparr>
        \<lparr>pa_length = 48, pa_body = replicate 48 0\<rparr> [0x0A])"
  by code_simp

subsection \<open>The concrete scenario\<close>

lemma replicate_numeral: "replicate (numeral k) x = x # replicate (pred_numeral k) x"
  by (simp add: numeral_eq_Suc)

lemmas encode_defs = MarshalBinary_def MarshalTo_def MarshalLen_def NewUDT_def SetLength_def
  NewProtocolClass_def pa_MarshalLen_def pa_MarshalTo_def pa_Length_def pc_Value_def
  splice_at_def copy_at_def store_def slice_def MsgTypeUDT_def empty_address_def Let_def

text \<open>
  C4, as the code has it. The message built by \<^verbatim>\<open>NewUDT\<close> from protocol class 0 without
  return-on-error, two addresses of length 0 and the payload \<^verbatim>\<open>DE AD\<close> encodes to the ten
  bytes \<^verbatim>\<open>09 00 03 03 03 00 00 02 DE AD\<close> (each address is its length byte), its serial
  length is 10, and decoding those ten bytes gives the message back.
\<close>

theorem concrete_scenario:
  "MarshalBinary (NewUDT 0 False empty_address empty_address [0xDE, 0xAD]) =
     Ok [0x09, 0x00, 0x03, 0x03, 0x03, 0x00, 0x00, 0x02, 0xDE, 0xAD] \<and>
   MarshalLen (NewUDT 0 False empty_address empty_address [0xDE, 0xAD]) = 10 \<and>
   ParseUDT [0x09, 0x00, 0x03, 0x03, 0x03, 0x00, 0x00, 0x02, 0xDE, 0xAD] =
     Ok (NewUDT 0 False empty_address empty_address [0xDE, 0xAD])"
  by (simp add: encode_defs decode_defs replicate_numeral)

text \<open>
  C4 as stated fails: the encoding is not the eight bytes \<^verbatim>\<open>09 00 03 03 03 02 DE AD\<close>, the
  serial length is not 8, and those eight bytes do not decode to the message (their
  \<open>pointer3\<close> of 3 puts the data-length byte at index 7, the last one).
\<close>

theorem concrete_scenario_counterexample:
  "MarshalBinary (NewUDT 0 False empty_address empty_address [0xDE, 0xAD]) \<noteq>
     Ok [0x09, 0x00, 0x03, 0x03, 0x03, 0x02, 0xDE, 0xAD] \<and>
   MarshalLen (NewUDT 0 False empty_address empty_address [0xDE, 0xAD]) \<noteq> 8 \<and>
   ParseUDT [0x09, 0x00, 0x03, 0x03, 0x03, 0x02, 0xDE, 0xAD] = Err ErrUnexpectedEOF"
  by (simp add: encode_defs decode_defs replicate_numeral)

end
